theory Spec2Isabelle
  imports Main "HOL-Library.Sublist"
begin

section \<open>Python values used by app.py\<close>

text \<open>
  Strings are lists of code points below 256 (\<^typ>\<open>char\<close>).  \<open>str.strip()\<close> removes
  the leading and trailing characters for which \<open>str.isspace()\<close> holds; below 256 these
  are TAB..CR, FS..US, SPACE, NEL (133) and NBSP (160).
\<close>

definition isspace :: "char \<Rightarrow> bool" where
  "isspace c =
     (let n = (of_char c :: nat)
      in (9 \<le> n \<and> n \<le> 13) \<or> (28 \<le> n \<and> n \<le> 32) \<or> n = 133 \<or> n = 160)"

definition strip :: "string \<Rightarrow> string" where
  "strip s = rev (dropWhile isspace (rev (dropWhile isspace s)))"

text \<open>Truthiness of an optional string (\<open>None\<close> and \<open>""\<close> are falsy).\<close>

definition truthy :: "string option \<Rightarrow> bool" where
  "truthy v = (case v of None \<Rightarrow> False | Some s \<Rightarrow> s \<noteq> [])"

section \<open>The catalog (apps.json)\<close>

text \<open>
  A catalog entry is a JSON object read with \<open>app.get(key)\<close>, so every key may be
  missing.  \<open>ident\<close> is the key \<open>"id"\<close> (the name \<open>id\<close> is taken in HOL), \<open>owner\<close> and
  \<open>allowedSn\<close> are the keys of the same name, and \<open>details\<close> holds the remaining
  descriptive keys with their text.  The empty object \<open>{}\<close> is the entry with no key.
\<close>

record app =
  ident :: "int option"
  owner :: "string option"
  allowedSn :: "string list option"
  details :: "(string \<times> string) list"

subsection \<open>\<open>filter_apps_by_sn\<close> (lines 212-240)\<close>

text \<open>
  The \<open>for\<close> loop of the branch for a client that sent an SN, with \<open>filtered_list\<close> as
  accumulator: an entry is appended when \<open>allowed_sns is not None and len(allowed_sns) == 0\<close>,
  or else when \<open>allowed_sns\<close> is truthy and contains \<open>client_sn\<close>.
\<close>

fun sn_loop :: "string \<Rightarrow> app list \<Rightarrow> app list \<Rightarrow> app list" where
  "sn_loop client_sn filtered_list [] = filtered_list"
| "sn_loop client_sn filtered_list (a # rest) =
     (case allowedSn a of
        None \<Rightarrow> sn_loop client_sn filtered_list rest
      | Some allowed_sns \<Rightarrow>
          if length allowed_sns = 0 then sn_loop client_sn (filtered_list @ [a]) rest
          else if allowed_sns \<noteq> [] \<and> client_sn \<in> set allowed_sns
            then sn_loop client_sn (filtered_list @ [a]) rest
          else sn_loop client_sn filtered_list rest)"

definition filter_apps_by_sn :: "app list \<Rightarrow> string \<Rightarrow> app list" where
  "filter_apps_by_sn all_apps client_sn_arg =
     (let client_sn = strip client_sn_arg
      in if client_sn \<noteq> [] then sn_loop client_sn [] all_apps
         else filter (\<lambda>a. case allowedSn a of None \<Rightarrow> False
                                | Some allowed_sns \<Rightarrow> length allowed_sns = 0) all_apps)"

section \<open>More Python helpers\<close>

text \<open>
  \<open>s.split(',')\<close>: the pieces between the commas; it never returns an empty list.
\<close>

fun split_comma :: "string \<Rightarrow> string list" where
  "split_comma [] = [[]]"
| "split_comma (c # cs) =
     (if c = CHR '','' then [] # split_comma cs
      else (case split_comma cs of [] \<Rightarrow> [[c]] | p # ps \<Rightarrow> (c # p) # ps))"

text \<open>
  \<open>str.isdigit()\<close>: a non-empty string of digit characters.  Below 256 the digit
  characters are \<open>0\<close>..\<open>9\<close> and the superscripts two, three and one (178, 179, 185).
\<close>

definition isdigit :: "char \<Rightarrow> bool" where
  "isdigit c =
     (let n = (of_char c :: nat) in (48 \<le> n \<and> n \<le> 57) \<or> n = 178 \<or> n = 179 \<or> n = 185)"

definition str_isdigit :: "string \<Rightarrow> bool" where
  "str_isdigit s = (s \<noteq> [] \<and> list_all isdigit s)"

text \<open>
  \<open>int(s)\<close> for a string, \<open>None\<close> being its ValueError.  The text is trimmed of the
  whitespace that \<open>int\<close> skips (TAB..CR, SPACE, NEL, NBSP; not FS..US), may start with one
  sign, and is then a run of the digits \<open>0\<close>..\<open>9\<close> in which single underscores may stand
  between two digits.  More than 4300 digits are refused (the interpreter's default
  limit for this conversion).  A superscript digit is not accepted.
\<close>

definition int_space :: "char \<Rightarrow> bool" where
  "int_space c =
     (let n = (of_char c :: nat) in (9 \<le> n \<and> n \<le> 13) \<or> n = 32 \<or> n = 133 \<or> n = 160)"

definition ascii_digit :: "char \<Rightarrow> bool" where
  "ascii_digit c = (48 \<le> (of_char c :: nat) \<and> (of_char c :: nat) \<le> 57)"

fun grouped :: "string \<Rightarrow> bool" where
  "grouped [] = False"
| "grouped [c] = ascii_digit c"
| "grouped (c # d # rest) =
     (ascii_digit c \<and> (if d = CHR ''_'' then grouped rest else grouped (d # rest)))"

definition int_parts :: "string \<Rightarrow> bool \<times> string" where
  "int_parts t =
     (case t of
        [] \<Rightarrow> (False, [])
      | c # r \<Rightarrow>
          if c = CHR ''-'' then (True, r)
          else if c = CHR ''+'' then (False, r)
          else (False, t))"

definition py_int :: "string \<Rightarrow> int option" where
  "py_int s =
     (let t = rev (dropWhile int_space (rev (dropWhile int_space s)));
          negative = fst (int_parts t);
          body = snd (int_parts t);
          digs = filter ascii_digit body
      in if grouped body \<and> length digs \<le> 4300
         then Some ((if negative then - 1 else 1) *
                    foldl (\<lambda>n c. 10 * n + int ((of_char c :: nat) - 48)) 0 digs)
         else None)"


text \<open>\<open>str(n)\<close> for an integer, and \<open>str(app.get("id"))\<close> where the key may be missing.\<close>

fun digits :: "nat \<Rightarrow> string" where
  "digits n =
     (if n < 10 then [char_of (48 + n)]
      else digits (n div 10) @ [char_of (48 + n mod 10)])"

declare digits.simps [simp del]

definition py_str :: "int \<Rightarrow> string" where
  "py_str i = (if i < 0 then CHR ''-'' # digits (nat (- i)) else digits (nat i))"

definition str_of_id :: "int option \<Rightarrow> string" where
  "str_of_id v = (case v of None \<Rightarrow> ''None'' | Some i \<Rightarrow> py_str i)"

text \<open>A Python dict is falsy exactly when it has no key.\<close>

definition is_empty_object :: "app \<Rightarrow> bool" where
  "is_empty_object a =
     (ident a = None \<and> owner a = None \<and> allowedSn a = None \<and> details a = [])"

section \<open>Accounts (config.json), the SN registry and the three stores\<close>

text \<open>
  An account of \<open>config["users"]\<close>: \<open>role\<close>, \<open>max_apps\<close> and \<open>owns_apps\<close> are read with
  \<open>.get\<close> and may be missing (the initial \<open>super_admin\<close> has neither counter).
  The store is what \<open>load_apps\<close>, \<open>load_config\<close> and \<open>load_sn_config\<close> read and what the
  \<open>save_\<close> functions write; each route runs alone on it.
\<close>

record user =
  password :: string
  role :: "string option"
  max_apps :: "int option"
  owns_apps :: "int option"

record store =
  apps :: "app list"
  users :: "string \<rightharpoonup> user"
  sn_config :: "string \<rightharpoonup> string"

subsection \<open>\<open>has_role\<close> (lines 145-171)\<close>

text \<open>
  The decorator of the management routes.  \<open>auth\<close> is the request's basic-auth pair;
  the wrapped function reads the user name back through \<open>get_logged_in_user\<close>.
\<close>

datatype 'a gated = Unauthorized | AccessDenied | Run 'a

definition has_role ::
  "string \<Rightarrow> (string \<rightharpoonup> user) \<Rightarrow> (string \<times> string) option \<Rightarrow> (string \<Rightarrow> 'a) \<Rightarrow> 'a gated" where
  "has_role required_role config_users auth f =
     (case auth of
        None \<Rightarrow> Unauthorized
      | Some (username, pw) \<Rightarrow>
          (case config_users username of
             None \<Rightarrow> Unauthorized
           | Some u \<Rightarrow>
               if password u \<noteq> pw then Unauthorized
               else
                 let user_role = (case role u of None \<Rightarrow> ''guest'' | Some r \<Rightarrow> r)
                 in if user_role = ''super'' \<and>
                       (required_role = ''manager'' \<or> required_role = ''super'')
                    then Run (f username)
                    else if user_role \<noteq> required_role then AccessDenied
                    else Run (f username)))"

subsection \<open>\<open>add_app\<close> (lines 779-856)\<close>

text \<open>The fields of \<open>request.form\<close> that \<open>add_app\<close> reads; a field may be missing.\<close>

record form =
  downloadUrl_hidden :: "string option"
  size_hidden :: "string option"
  md5_hidden :: "string option"
  form_allowedSn :: "string option"
  form_appName :: "string option"
  form_packageName :: "string option"
  form_id :: "string option"
  form_iconUrl :: "string option"
  form_desc :: "string option"

definition DEFAULT_ICON_URL :: string where
  "DEFAULT_ICON_URL = ''https://drive.idkwhatismyname.space/hFxt8p2mnpmLhBS1.png''"

text \<open>
  Lines 804-806 and 811-813: the SN list of the request, from the comma-separated field.
\<close>

definition requested_sns :: "form \<Rightarrow> string list" where
  "requested_sns data =
     (let allowed_sn_raw = strip (case form_allowedSn data of None \<Rightarrow> [] | Some s \<Rightarrow> s)
      in if allowed_sn_raw \<noteq> []
         then map strip (filter (\<lambda>sn. strip sn \<noteq> []) (split_comma allowed_sn_raw))
         else [])"

text \<open>
  Lines 807-810: the loop over the list; it stops at the first SN whose registered owner
  is truthy and differs from the logged-in user, and yields that SN and owner.
\<close>

fun sn_conflict :: "(string \<rightharpoonup> string) \<Rightarrow> string \<Rightarrow> string list \<Rightarrow> (string \<times> string) option" where
  "sn_conflict registry owner_user [] = None"
| "sn_conflict registry owner_user (sn # rest) =
     (case registry sn of
        None \<Rightarrow> sn_conflict registry owner_user rest
      | Some sn_owner \<Rightarrow>
          if sn_owner \<noteq> [] \<and> sn_owner \<noteq> owner_user then Some (sn, sn_owner)
          else sn_conflict registry owner_user rest)"

text \<open>
  The outcomes of \<open>add_app\<close>, one per \<open>return\<close>: the redirects of lines 794, 801, 810,
  818 and 846 (errors), an uncaught exception (\<open>None.strip()\<close> at line 820 when the form
  has no \<open>id\<close> field, \<open>int\<close> at line 822), and the success redirect of line 856 with
  the entry's name and id.
\<close>

datatype add_result =
    MissingFileInfo
  | QuotaExceeded int
  | SnConflict string string
  | MissingRequired
  | DuplicateId int
  | Unhandled
  | Created string int

text \<open>
  What \<open>add_app\<close> reads of the logged-in account: \<open>user_data\<close> is
  \<open>config["users"].get(owner_user, {})\<close>, with \<open>None\<close> for the empty default, and the three
  \<open>.get\<close> calls of lines 797-799 carry the defaults \<open>0\<close> and \<open>9999\<close>.
\<close>

definition user_role :: "user option \<Rightarrow> string option" where
  "user_role user_data = (case user_data of None \<Rightarrow> None | Some u \<Rightarrow> role u)"

definition current_owns :: "user option \<Rightarrow> int" where
  "current_owns user_data =
     (case user_data of
        None \<Rightarrow> 0
      | Some u \<Rightarrow> (case owns_apps u of None \<Rightarrow> 0 | Some n \<Rightarrow> n))"

definition max_limit :: "user option \<Rightarrow> int" where
  "max_limit user_data =
     (case user_data of
        None \<Rightarrow> 9999
      | Some u \<Rightarrow> (case max_apps u of None \<Rightarrow> 9999 | Some n \<Rightarrow> n))"

text \<open>
  Lines 826-842, the new entry.  The name and the package name are present when it is
  built (line 817 checked them), so the defaults of lines 829-830 are never taken.  The
  model keeps the keys filled from the request; the constant keys (\<open>versionName\<close> to
  \<open>enName\<close>) and \<open>updateTime\<close> are left out.
\<close>

definition new_app_data :: "string \<Rightarrow> form \<Rightarrow> string \<Rightarrow> string \<Rightarrow> int \<Rightarrow> app" where
  "new_app_data owner_user data app_name package_name new_id =
     \<lparr>ident = Some new_id,
      owner = Some owner_user,
      allowedSn = Some (requested_sns data),
      details =
        [(''appId'', package_name @ ''-'' @ py_str new_id),
         (''appName'', app_name),
         (''packageName'', package_name),
         (''downloadUrl'', (case downloadUrl_hidden data of None \<Rightarrow> [] | Some s \<Rightarrow> s)),
         (''iconUrl'', (case form_iconUrl data of None \<Rightarrow> DEFAULT_ICON_URL | Some s \<Rightarrow> s)),
         (''size'', (case size_hidden data of None \<Rightarrow> [] | Some s \<Rightarrow> s)),
         (''md5'', (case md5_hidden data of None \<Rightarrow> [] | Some s \<Rightarrow> s)),
         (''desc'', (case form_desc data of None \<Rightarrow> [] | Some s \<Rightarrow> s))]\<rparr>"

text \<open>
  Lines 848-854: the entry is appended and saved, then the counter of a \<open>manager\<close>
  account is set to \<open>current_owns + 1\<close>.
\<close>

definition save_new_app :: "store \<Rightarrow> string \<Rightarrow> app \<Rightarrow> store" where
  "save_new_app st owner_user app_data =
     (let st1 = st\<lparr>apps := apps st @ [app_data]\<rparr>
      in case users st owner_user of
           None \<Rightarrow> st1
         | Some u \<Rightarrow>
             if role u = Some ''manager''
             then st1\<lparr>users := (users st)(owner_user \<mapsto>
                    u\<lparr>owns_apps := Some (current_owns (Some u) + 1)\<rparr>)\<rparr>
             else st1)"

text \<open>
  Lines 820-824: the id typed into the form when it is a digit string, a random one
  otherwise; \<open>None\<close> is the ValueError of \<open>int\<close>.  \<open>rand1\<close> and \<open>rand2\<close> are what the first
  and the second call of \<open>random.randint(100000, 999999)\<close> return.
\<close>

definition choose_id :: "string \<Rightarrow> int \<Rightarrow> int option" where
  "choose_id app_id_raw rand1 =
     (if app_id_raw \<noteq> [] \<and> str_isdigit app_id_raw then py_int app_id_raw else Some rand1)"

text \<open>
  Lines 815-856, after the three checks: the required fields, the id, the collision test
  of lines 844-846 (one new draw when the form gave no id, the error otherwise), and the
  two writes.
\<close>

definition insert_app :: "store \<Rightarrow> string \<Rightarrow> form \<Rightarrow> int \<Rightarrow> int \<Rightarrow> add_result \<times> store" where
  "insert_app st owner_user data rand1 rand2 =
     (case form_appName data of
        None \<Rightarrow> (MissingRequired, st)
      | Some app_name \<Rightarrow>
          (case form_packageName data of
             None \<Rightarrow> (MissingRequired, st)
           | Some package_name \<Rightarrow>
               if app_name = [] \<or> package_name = [] then (MissingRequired, st)
               else
                 (case form_id data of
                    None \<Rightarrow> (Unhandled, st)
                  | Some id_text \<Rightarrow>
                      (case choose_id (strip id_text) rand1 of
                         None \<Rightarrow> (Unhandled, st)
                       | Some new_id \<Rightarrow>
                           if list_ex (\<lambda>a. ident a = Some new_id) (apps st)
                           then
                             if strip id_text = []
                             then (Created app_name rand2,
                                   save_new_app st owner_user
                                     ((new_app_data owner_user data app_name package_name new_id)
                                        \<lparr>ident := Some rand2\<rparr>))
                             else (DuplicateId new_id, st)
                           else (Created app_name new_id,
                                 save_new_app st owner_user
                                   (new_app_data owner_user data app_name package_name new_id))))))"

definition add_app :: "store \<Rightarrow> string \<Rightarrow> form \<Rightarrow> int \<Rightarrow> int \<Rightarrow> add_result \<times> store" where
  "add_app st owner_user data rand1 rand2 =
     (let user_data = users st owner_user
      in if \<not> (truthy (downloadUrl_hidden data) \<and> truthy (size_hidden data) \<and>
                truthy (md5_hidden data))
         then (MissingFileInfo, st)
         else if user_role user_data = Some ''manager'' \<and>
                 current_owns user_data \<ge> max_limit user_data
         then (QuotaExceeded (max_limit user_data), st)
         else
           (case sn_conflict (sn_config st) owner_user (requested_sns data) of
              Some (sn, sn_owner) \<Rightarrow> (SnConflict sn sn_owner, st)
            | None \<Rightarrow> insert_app st owner_user data rand1 rand2))"

text \<open>The route: \<open>@has_role("manager")\<close> around \<open>add_app\<close>.\<close>

definition add_app_route ::
  "store \<Rightarrow> (string \<times> string) option \<Rightarrow> form \<Rightarrow> int \<Rightarrow> int \<Rightarrow> (add_result \<times> store) gated" where
  "add_app_route st auth data rand1 rand2 =
     has_role ''manager'' (users st) auth
       (\<lambda>owner_user. add_app st owner_user data rand1 rand2)"

subsection \<open>\<open>delete_app\<close> (lines 862-895)\<close>

text \<open>
  The outcomes: no id in the form (line 866), the permission error (line 877), success
  (line 883), not found (line 893).  \<open>DeleteUnhandled\<close> stands for line 886 raising on
  \<open>None.get\<close> after the catalog was saved.
\<close>

datatype delete_result =
    NoAppId
  | Forbidden
  | Deleted string
  | NotFound string
  | DeleteUnhandled

text \<open>Line 871: the first entry whose \<open>str(id)\<close> is the id of the request.\<close>

definition find_app :: "app list \<Rightarrow> string \<Rightarrow> app option" where
  "find_app all_apps app_id_to_delete =
     find (\<lambda>a. str_of_id (ident a) = app_id_to_delete) all_apps"

text \<open>
  Line 876: the entry was found and is truthy, its owner is not the logged-in user, and
  the logged-in user is not \<open>super\<close>.
\<close>

definition delete_denied :: "store \<Rightarrow> string \<Rightarrow> app option \<Rightarrow> bool" where
  "delete_denied st owner_user app_to_delete =
     ((case app_to_delete of
         None \<Rightarrow> False
       | Some a \<Rightarrow> \<not> is_empty_object a \<and> owner a \<noteq> Some owner_user) \<and>
      user_role (users st owner_user) \<noteq> Some ''super'')"

text \<open>
  Lines 886-890: the counter of the removed entry's owner, when that owner is an account
  of role \<open>manager\<close>, becomes \<open>max(0, owns_apps - 1)\<close>, a missing counter counting as 1.
\<close>

definition decrement_owner :: "store \<Rightarrow> string option \<Rightarrow> store" where
  "decrement_owner st app_owner =
     (case app_owner of
        None \<Rightarrow> st
      | Some name \<Rightarrow>
          (case users st name of
             None \<Rightarrow> st
           | Some u \<Rightarrow>
               if role u = Some ''manager''
               then st\<lparr>users := (users st)(name \<mapsto>
                      u\<lparr>owns_apps :=
                          Some (max 0 ((case owns_apps u of None \<Rightarrow> 1 | Some n \<Rightarrow> n) - 1))\<rparr>)\<rparr>
               else st))"

definition delete_app :: "store \<Rightarrow> string \<Rightarrow> string option \<Rightarrow> delete_result \<times> store" where
  "delete_app st owner_user id_field =
     (case id_field of
        None \<Rightarrow> (NoAppId, st)
      | Some app_id_to_delete \<Rightarrow>
          if app_id_to_delete = [] then (NoAppId, st)
          else
            let all_apps = apps st;
                original_count = length all_apps;
                app_to_delete = find_app all_apps app_id_to_delete
            in if delete_denied st owner_user app_to_delete then (Forbidden, st)
               else
                 let new_apps_list =
                       filter (\<lambda>a. str_of_id (ident a) \<noteq> app_id_to_delete) all_apps
                 in if length new_apps_list < original_count
                    then
                      (case app_to_delete of
                         None \<Rightarrow> (DeleteUnhandled, st\<lparr>apps := new_apps_list\<rparr>)
                       | Some a \<Rightarrow>
                           (Deleted app_id_to_delete,
                            decrement_owner (st\<lparr>apps := new_apps_list\<rparr>) (owner a)))
                    else (NotFound app_id_to_delete, st))"

subsection \<open>\<open>map_app_fields\<close> (lines 258-303)\<close>






subsection \<open>The client listings (lines 305-327 and 1043-1046)\<close>







subsection \<open>\<open>apk_details\<close> (lines 1027-1041)\<close>





section \<open>Data of the examples\<close>

text \<open>
  The stores that \<open>load_apps\<close>, \<open>load_config\<close> and \<open>load_sn_config\<close> create when their
  files are missing (lines 181-192, 79-82 and 107-109; of the first entry's descriptive
  keys three are kept), two further entries, a filled-in form, and an account without
  \<open>max_apps\<close>.
\<close>

definition initial_app :: app where
  "initial_app =
     \<lparr>ident = Some 602750, owner = Some ''manager_user'', allowedSn = Some [],
      details = [(''appId'', ''mt-001''), (''name'', ''MT''),
                 (''packageName'', ''com.mt.manager'')]\<rparr>"

definition super_account :: user where
  "super_account =
     \<lparr>password = ''123456'', role = Some ''super'', max_apps = None, owns_apps = None\<rparr>"

definition manager_account :: user where
  "manager_account =
     \<lparr>password = ''app_manager_123'', role = Some ''manager'', max_apps = Some 10,
      owns_apps = Some 0\<rparr>"

definition initial_users :: "string \<rightharpoonup> user" where
  "initial_users = [''super_admin'' \<mapsto> super_account, ''manager_user'' \<mapsto> manager_account]"

definition initial_store :: store where
  "initial_store =
     \<lparr>apps = [initial_app], users = initial_users,
      sn_config = [''114514'' \<mapsto> ''manager_user'']\<rparr>"

definition restricted_app :: app where
  "restricted_app =
     \<lparr>ident = Some 100001, owner = Some ''manager_user'', allowedSn = Some [''114514''],
      details = [(''appId'', ''com.a-100001'')]\<rparr>"

definition legacy_app :: app where
  "legacy_app =
     \<lparr>ident = Some 100002, owner = Some ''manager_user'', allowedSn = None,
      details = [(''appId'', ''com.b-100002'')]\<rparr>"

definition upload_form :: form where
  "upload_form =
     \<lparr>downloadUrl_hidden = Some ''https://zybapk.idkwhatismyname.space/demo.apk'',
      size_hidden = Some ''1024'',
      md5_hidden = Some ''c783de55addbf3cf3606f825fd784aee'',
      form_allowedSn = Some [],
      form_appName = Some ''Demo'',
      form_packageName = Some ''com.demo'',
      form_id = Some [],
      form_iconUrl = None,
      form_desc = Some []\<rparr>"

definition uncapped_manager :: user where
  "uncapped_manager =
     \<lparr>password = ''pw'', role = Some ''manager'', max_apps = None, owns_apps = Some 9999\<rparr>"

text \<open>
  A second manager with the limit 2 (one entry owned, then two), a store holding both
  managers, and two variants of the form: one restricted to the registered SN, one asking
  for the id of the initial entry.
\<close>

definition second_manager :: user where
  "second_manager =
     \<lparr>password = ''pw2'', role = Some ''manager'', max_apps = Some 2, owns_apps = Some 1\<rparr>"

definition full_manager :: user where
  "full_manager = second_manager\<lparr>owns_apps := Some 2\<rparr>"

definition two_manager_store :: store where
  "two_manager_store = initial_store\<lparr>users := initial_users(''m2'' \<mapsto> second_manager)\<rparr>"

definition sn_form :: form where
  "sn_form = upload_form\<lparr>form_allowedSn := Some ''114514''\<rparr>"

definition dup_form :: form where
  "dup_form = upload_form\<lparr>form_id := Some ''602750''\<rparr>"






definition duplicate_entry :: app where
  "duplicate_entry =
     (new_app_data ''m2'' upload_form ''Demo'' ''com.demo'' 602750)\<lparr>ident := Some 602750\<rparr>"

definition duplicate_store :: store where
  "duplicate_store = snd (add_app two_manager_store ''m2'' upload_form 602750 602750)"

section \<open>Visibility filter\<close>

text \<open>The condition under which the loop keeps an entry, for the trimmed SN.\<close>

definition visible_to :: "string \<Rightarrow> app \<Rightarrow> bool" where
  "visible_to sn a =
     (case allowedSn a of
        None \<Rightarrow> False
      | Some l \<Rightarrow> l = [] \<or> (sn \<noteq> [] \<and> sn \<in> set l))"

lemma sn_loop_filter:
  "sn \<noteq> [] \<Longrightarrow> sn_loop sn acc xs = acc @ filter (visible_to sn) xs"
  by (induction xs arbitrary: acc) (auto simp: visible_to_def split: option.splits)

lemma filter_apps_by_sn_filter:
  "filter_apps_by_sn all_apps client_sn = filter (visible_to (strip client_sn)) all_apps"
proof (cases "strip client_sn = []")
  case True
  have "(\<lambda>a. case allowedSn a of None \<Rightarrow> False | Some l \<Rightarrow> length l = 0) = visible_to []"
    by (rule ext) (simp add: visible_to_def split: option.splits)
  with True show ?thesis by (simp add: filter_apps_by_sn_def)
next
  case False
  then show ?thesis by (simp add: filter_apps_by_sn_def sn_loop_filter)
qed

text \<open>
  C10.  The filter is a function of the catalog and the client SN alone, and what it
  returns is a subsequence of the catalog: the entries it keeps, in the catalog's order.
\<close>

theorem filter_apps_by_sn_subseq:
  "subseq (filter_apps_by_sn all_apps client_sn) all_apps"
  by (simp add: filter_apps_by_sn_filter)

theorem filter_apps_by_sn_subseq_witness:
  "subseq (filter_apps_by_sn [legacy_app, restricted_app, initial_app] ''114514'')
     [legacy_app, restricted_app, initial_app] \<and>
   filter_apps_by_sn [legacy_app, restricted_app, initial_app] ''114514'' =
     [restricted_app, initial_app]"
  using filter_apps_by_sn_subseq [of "[legacy_app, restricted_app, initial_app]" "''114514''"]
  by (simp add: filter_apps_by_sn_def strip_def isspace_def initial_app_def
      restricted_app_def legacy_app_def)

text \<open>
  C2, as the code has it: the client SN is trimmed of surrounding whitespace first, and
  the rule of the claim holds for the trimmed SN.  An entry is returned exactly when it is
  in the catalog and, for a non-empty trimmed SN, its \<open>allowedSn\<close> is the empty list or a
  non-empty list containing the trimmed SN; for an empty trimmed SN, its \<open>allowedSn\<close> is
  the empty list.  An entry without \<open>allowedSn\<close> is never returned.
\<close>

theorem filter_apps_by_sn_membership:
  "(e \<in> set (filter_apps_by_sn all_apps client_sn) \<longleftrightarrow>
      e \<in> set all_apps \<and>
      (if strip client_sn \<noteq> []
       then allowedSn e = Some [] \<or>
            (\<exists>l. allowedSn e = Some l \<and> l \<noteq> [] \<and> strip client_sn \<in> set l)
       else allowedSn e = Some [])) \<and>
   (allowedSn e = None \<longrightarrow> e \<notin> set (filter_apps_by_sn all_apps client_sn))"
  by (auto simp: filter_apps_by_sn_filter visible_to_def split: option.splits)

theorem filter_apps_by_sn_membership_witness:
  "restricted_app \<in> set (filter_apps_by_sn [initial_app, restricted_app, legacy_app] '' 114514 '') \<and>
   initial_app \<in> set (filter_apps_by_sn [initial_app, restricted_app, legacy_app] '' 114514 '') \<and>
   restricted_app \<notin> set (filter_apps_by_sn [initial_app, restricted_app, legacy_app] []) \<and>
   allowedSn legacy_app = None \<and>
   legacy_app \<notin> set (filter_apps_by_sn [initial_app, restricted_app, legacy_app] '' 114514 '')"
  using
    filter_apps_by_sn_membership
      [of restricted_app "[initial_app, restricted_app, legacy_app]" "'' 114514 ''"]
    filter_apps_by_sn_membership
      [of initial_app "[initial_app, restricted_app, legacy_app]" "'' 114514 ''"]
    filter_apps_by_sn_membership
      [of restricted_app "[initial_app, restricted_app, legacy_app]" "[]"]
    filter_apps_by_sn_membership
      [of legacy_app "[initial_app, restricted_app, legacy_app]" "'' 114514 ''"]
  by (simp add: strip_def isspace_def initial_app_def restricted_app_def legacy_app_def)

text \<open>
  C2 as stated fails for a client SN with surrounding whitespace: the SN \<open>" 114514"\<close> is
  not empty and is not a member of the entry's list \<open>["114514"]\<close>, which is not empty
  either, yet the entry is returned.
\<close>

theorem filter_apps_by_sn_untrimmed_counterexample:
  "restricted_app \<in> set (filter_apps_by_sn [restricted_app] '' 114514'') \<and>
   '' 114514'' \<noteq> [] \<and>
   allowedSn restricted_app = Some [''114514''] \<and>
   '' 114514'' \<notin> set [''114514'']"
  by (simp add: filter_apps_by_sn_def strip_def isspace_def restricted_app_def)

section \<open>Facts about the helpers and the example data\<close>

text \<open>The decimal text of an id is never empty; the examples' ids and forms, evaluated.\<close>

lemma digits_nonempty: "digits n \<noteq> []"
  by (subst digits.simps) simp

lemma str_of_id_nonempty: "str_of_id v \<noteq> []"
  by (cases v) (simp_all add: str_of_id_def py_str_def digits_nonempty)

lemma str_of_id_602750: "str_of_id (Some 602750) = ''602750''"
  by (simp add: str_of_id_def py_str_def digits.simps char_of_def bit_Suc_0_iff)


lemma py_int_602750: "py_int ''602750'' = Some 602750"
  by (simp add: py_int_def Let_def int_space_def int_parts_def ascii_digit_def)

lemma str_isdigit_602750: "str_isdigit ''602750''"
  by (simp add: str_isdigit_def isdigit_def)

lemma strip_602750: "strip ''602750'' = ''602750''"
  by (simp add: strip_def isspace_def)

lemma upload_form_fields:
  "downloadUrl_hidden upload_form = Some ''https://zybapk.idkwhatismyname.space/demo.apk''"
  "size_hidden upload_form = Some ''1024''"
  "md5_hidden upload_form = Some ''c783de55addbf3cf3606f825fd784aee''"
  "form_allowedSn upload_form = Some []"
  "form_appName upload_form = Some ''Demo''"
  "form_packageName upload_form = Some ''com.demo''"
  "form_id upload_form = Some []"
  by (simp_all add: upload_form_def)

lemma sn_form_fields:
  "downloadUrl_hidden sn_form = downloadUrl_hidden upload_form"
  "size_hidden sn_form = size_hidden upload_form"
  "md5_hidden sn_form = md5_hidden upload_form"
  "form_allowedSn sn_form = Some ''114514''"
  "form_appName sn_form = Some ''Demo''"
  "form_packageName sn_form = Some ''com.demo''"
  "form_id sn_form = Some []"
  by (simp_all add: sn_form_def upload_form_def)

lemma dup_form_fields:
  "downloadUrl_hidden dup_form = downloadUrl_hidden upload_form"
  "size_hidden dup_form = size_hidden upload_form"
  "md5_hidden dup_form = md5_hidden upload_form"
  "form_allowedSn dup_form = Some []"
  "form_appName dup_form = Some ''Demo''"
  "form_packageName dup_form = Some ''com.demo''"
  "form_id dup_form = Some ''602750''"
  by (simp_all add: dup_form_def upload_form_def)

lemma upload_form_truthy:
  "truthy (downloadUrl_hidden upload_form)" "truthy (size_hidden upload_form)"
  "truthy (md5_hidden upload_form)"
  by (simp_all add: truthy_def upload_form_fields)

lemma requested_sns_upload: "requested_sns upload_form = []"
  by (simp add: requested_sns_def upload_form_fields strip_def)

lemma requested_sns_sn_form: "requested_sns sn_form = [''114514'']"
  by (simp add: requested_sns_def sn_form_fields strip_def isspace_def)

lemma requested_sns_dup: "requested_sns dup_form = []"
  by (simp add: requested_sns_def dup_form_fields strip_def)

lemma initial_store_fields:
  "apps initial_store = [initial_app]"
  "users initial_store ''manager_user'' = Some manager_account"
  "users initial_store ''super_admin'' = Some super_account"
  "sn_config initial_store = [''114514'' \<mapsto> ''manager_user'']"
  by (simp_all add: initial_store_def initial_users_def)

lemma two_manager_store_fields:
  "apps two_manager_store = [initial_app]"
  "users two_manager_store ''m2'' = Some second_manager"
  "users two_manager_store ''manager_user'' = Some manager_account"
  "users two_manager_store ''super_admin'' = Some super_account"
  "sn_config two_manager_store = [''114514'' \<mapsto> ''manager_user'']"
  by (simp_all add: two_manager_store_def initial_store_def initial_users_def)

lemma initial_app_fields:
  "owner initial_app = Some ''manager_user''" "ident initial_app = Some 602750"
  "\<not> is_empty_object initial_app"
  by (simp_all add: initial_app_def is_empty_object_def)












lemma duplicate_entry_fields:
  "ident duplicate_entry = Some 602750" "owner duplicate_entry = Some ''m2''"
  by (simp_all add: duplicate_entry_def new_app_data_def)

section \<open>Creating an entry\<close>

text \<open>
  What the stages of \<open>add_app\<close> can and cannot return, and which account passes the
  \<open>manager\<close> gate.
\<close>

lemma insert_app_sn_config: "sn_config (snd (insert_app st owner_user data rand1 rand2)) = sn_config st"
  by (simp add: insert_app_def save_new_app_def Let_def split: option.splits)

lemma add_app_sn_config: "sn_config (snd (add_app st owner_user data rand1 rand2)) = sn_config st"
  by (simp add: add_app_def Let_def insert_app_sn_config split: option.splits prod.splits)

lemma insert_app_failed:
  "snd (insert_app st owner_user data rand1 rand2) = st \<or>
   (\<exists>nm i. fst (insert_app st owner_user data rand1 rand2) = Created nm i)"
  by (simp add: insert_app_def split: option.splits)

lemma insert_app_not_quota: "fst (insert_app st owner_user data rand1 rand2) \<noteq> QuotaExceeded lim"
  by (simp add: insert_app_def split: option.splits)

lemma insert_app_not_conflict: "fst (insert_app st owner_user data rand1 rand2) \<noteq> SnConflict sn ow"
  by (simp add: insert_app_def split: option.splits)

lemma add_app_failed_aux:
  "snd (add_app st owner_user data rand1 rand2) = st \<or>
   (\<exists>nm i. fst (add_app st owner_user data rand1 rand2) = Created nm i)"
  using insert_app_failed [of st owner_user data rand1 rand2]
  by (simp add: add_app_def Let_def split: option.splits prod.splits)

lemma add_app_quota:
  assumes "truthy (downloadUrl_hidden data)" "truthy (size_hidden data)" "truthy (md5_hidden data)"
  shows "fst (add_app st owner_user data rand1 rand2) = QuotaExceeded lim \<longleftrightarrow>
     user_role (users st owner_user) = Some ''manager'' \<and>
     max_limit (users st owner_user) \<le> current_owns (users st owner_user) \<and>
     lim = max_limit (users st owner_user)"
  using assms
  by (auto simp: add_app_def Let_def insert_app_not_quota split: option.splits prod.splits)

lemma has_role_manager_Run:
  "has_role ''manager'' us auth f = Run r \<longleftrightarrow>
     (\<exists>username pw u. auth = Some (username, pw) \<and> us username = Some u \<and> password u = pw \<and>
        (role u = Some ''super'' \<or> role u = Some ''manager'') \<and> r = f username)"
  by (auto simp: has_role_def Let_def split: option.splits prod.splits if_splits)

lemma insert_app_created_users:
  "insert_app st owner_user data rand1 rand2 = (Created nm i, st') \<Longrightarrow>
   users st owner_user = Some u \<Longrightarrow> role u = Some ''manager'' \<Longrightarrow>
   users st' owner_user = Some (u\<lparr>owns_apps := Some (current_owns (Some u) + 1)\<rparr>)"
  by (auto simp: insert_app_def save_new_app_def Let_def split: option.splits if_splits)

lemma add_app_created_users:
  "add_app st owner_user data rand1 rand2 = (Created nm i, st') \<Longrightarrow>
   users st owner_user = Some u \<Longrightarrow> role u = Some ''manager'' \<Longrightarrow>
   users st' owner_user = Some (u\<lparr>owns_apps := Some (current_owns (Some u) + 1)\<rparr>)"
  by (auto simp: add_app_def Let_def split: option.splits prod.splits if_splits
      dest: insert_app_created_users)

lemma sn_conflict_Some:
  "sn_conflict registry owner_user sns = Some (sn, sn_owner) \<Longrightarrow>
   sn \<in> set sns \<and> registry sn = Some sn_owner \<and> sn_owner \<noteq> [] \<and> sn_owner \<noteq> owner_user"
  by (induction sns) (auto split: option.splits if_splits)

lemma sn_conflict_None:
  "sn_conflict registry owner_user sns = None \<longleftrightarrow>
   (\<forall>sn \<in> set sns. \<forall>sn_owner. registry sn = Some sn_owner \<longrightarrow> sn_owner = [] \<or> sn_owner = owner_user)"
  by (induction sns) (auto split: option.splits if_splits)

lemma add_app_conflict:
  assumes "truthy (downloadUrl_hidden data)" "truthy (size_hidden data)" "truthy (md5_hidden data)"
    and "\<not> (user_role (users st owner_user) = Some ''manager'' \<and>
            max_limit (users st owner_user) \<le> current_owns (users st owner_user))"
  shows "fst (add_app st owner_user data rand1 rand2) = SnConflict sn sn_owner \<longleftrightarrow>
     sn_conflict (sn_config st) owner_user (requested_sns data) = Some (sn, sn_owner)"
  using assms
  by (auto simp: add_app_def Let_def insert_app_not_conflict split: option.splits prod.splits)

lemma create_initial:
  "add_app initial_store ''manager_user'' upload_form 100000 100001 =
     (Created ''Demo'' 100000,
      save_new_app initial_store ''manager_user''
        (new_app_data ''manager_user'' upload_form ''Demo'' ''com.demo'' 100000))"
  by (simp add: add_app_def Let_def insert_app_def choose_id_def requested_sns_upload
      initial_store_fields manager_account_def initial_app_def truthy_def
      user_role_def current_owns_def max_limit_def upload_form_fields strip_def)

lemma create_duplicate:
  "fst (add_app initial_store ''manager_user'' dup_form 100000 100001) = DuplicateId 602750"
  by (simp add: add_app_def Let_def insert_app_def choose_id_def requested_sns_dup
      initial_store_fields manager_account_def initial_app_def truthy_def
      user_role_def current_owns_def max_limit_def dup_form_fields upload_form_fields
      strip_602750 str_isdigit_602750 py_int_602750)




lemma create_duplicate_draw:
  "add_app two_manager_store ''m2'' upload_form 602750 602750 =
     (Created ''Demo'' 602750, save_new_app two_manager_store ''m2'' duplicate_entry)"
  by (simp add: add_app_def Let_def insert_app_def choose_id_def requested_sns_upload
      two_manager_store_fields second_manager_def initial_app_def truthy_def
      user_role_def current_owns_def max_limit_def upload_form_fields strip_def
      duplicate_entry_def)

lemma duplicate_store_fields:
  "apps duplicate_store = [initial_app, duplicate_entry]"
  "users duplicate_store ''m2'' = Some (second_manager\<lparr>owns_apps := Some 2\<rparr>)"
  "users duplicate_store ''manager_user'' = Some manager_account"
  by (simp_all add: duplicate_store_def create_duplicate_draw save_new_app_def
      two_manager_store_fields second_manager_def current_owns_def Let_def)

text \<open>
  C1.  The claim holds for an id typed into the form (a taken id gives the error of line
  846), but not for a generated one: after a collision line 845 draws once more and the
  second draw is not compared with the catalog.  Here the catalog holds the ids 602750
  and 100001, the form gives no id, the first draw is 602750 and the second 100001: the
  request succeeds with the id 100001, which the catalog then holds twice.
\<close>

theorem add_app_second_draw_unchecked:
  "form_id upload_form = Some [] \<and>
   map ident (apps (initial_store\<lparr>apps := [initial_app, restricted_app]\<rparr>)) =
     [Some 602750, Some 100001] \<and>
   fst (add_app (initial_store\<lparr>apps := [initial_app, restricted_app]\<rparr>) ''manager_user''
          upload_form 602750 100001) = Created ''Demo'' 100001 \<and>
   map ident (apps (snd (add_app (initial_store\<lparr>apps := [initial_app, restricted_app]\<rparr>)
          ''manager_user'' upload_form 602750 100001))) =
     [Some 602750, Some 100001, Some 100001]"
  by (simp add: add_app_def Let_def insert_app_def save_new_app_def choose_id_def
      new_app_data_def requested_sns_upload initial_store_fields manager_account_def
      initial_app_def restricted_app_def truthy_def user_role_def current_owns_def
      max_limit_def upload_form_fields strip_def)

text \<open>
  C3 as stated fails for a manager account without \<open>max_apps\<close>: line 799 reads the
  missing limit as 9999, so with 9999 entries owned the request is refused.
\<close>

theorem add_app_missing_limit_counterexample:
  "role uncapped_manager = Some ''manager'' \<and> max_apps uncapped_manager = None \<and>
   owns_apps uncapped_manager = Some 9999 \<and>
   fst (add_app (initial_store\<lparr>users := [''manager_user'' \<mapsto> uncapped_manager]\<rparr>)
          ''manager_user'' upload_form 100000 100001) = QuotaExceeded 9999"
  by (simp add: add_app_def Let_def uncapped_manager_def truthy_def upload_form_fields
      user_role_def current_owns_def max_limit_def)

text \<open>
  C3, as the code has it.  For a request that passed the \<open>manager\<close> gate and carries the
  three pieces of file information, the quota check lets it pass exactly when the
  account's role is \<open>super\<close> or \<open>owns_apps\<close> (0 when missing) is below \<open>max_apps\<close> (9999
  when missing); otherwise the answer is the quota error with that limit, and the stores
  are as before.
\<close>

theorem add_app_quota_check:
  assumes "add_app_route st (Some (owner_user, pw)) data rand1 rand2 = Run (res, st')"
    and "users st owner_user = Some u"
    and "truthy (downloadUrl_hidden data)" "truthy (size_hidden data)" "truthy (md5_hidden data)"
  shows "((\<forall>lim. res \<noteq> QuotaExceeded lim) \<longleftrightarrow>
            role u = Some ''super'' \<or>
            (case owns_apps u of None \<Rightarrow> 0 | Some n \<Rightarrow> n)
              < (case max_apps u of None \<Rightarrow> 9999 | Some n \<Rightarrow> n)) \<and>
         ((\<exists>lim. res = QuotaExceeded lim) \<longrightarrow>
            res = QuotaExceeded (case max_apps u of None \<Rightarrow> 9999 | Some n \<Rightarrow> n) \<and> st' = st)"
proof -
  from assms(1,2) have r: "role u = Some ''super'' \<or> role u = Some ''manager''"
    and run: "add_app st owner_user data rand1 rand2 = (res, st')"
    by (auto simp: add_app_route_def has_role_manager_Run)
  have q: "res = QuotaExceeded lim \<longleftrightarrow>
     role u = Some ''manager'' \<and>
     (case max_apps u of None \<Rightarrow> 9999 | Some n \<Rightarrow> n)
       \<le> (case owns_apps u of None \<Rightarrow> 0 | Some n \<Rightarrow> n) \<and>
     lim = (case max_apps u of None \<Rightarrow> 9999 | Some n \<Rightarrow> n)" for lim
    using add_app_quota [OF assms(3-5), of st owner_user rand1 rand2 lim] run assms(2)
    by (simp add: user_role_def max_limit_def current_owns_def)
  have unchanged: "st' = st" if "res = QuotaExceeded lim" for lim
    using add_app_failed_aux [of st owner_user data rand1 rand2] run that by auto
  from r q unchanged show ?thesis by auto
qed

theorem add_app_quota_check_witness:
  "role manager_account = Some ''manager'' \<and>
   (\<forall>lim. fst (add_app initial_store ''manager_user'' upload_form 100000 100001)
            \<noteq> QuotaExceeded lim) \<and>
   role full_manager = Some ''manager'' \<and> owns_apps full_manager = Some 2 \<and>
   max_apps full_manager = Some 2 \<and>
   add_app (two_manager_store\<lparr>users := initial_users(''m2'' \<mapsto> full_manager)\<rparr>) ''m2''
      upload_form 100000 100001 =
     (QuotaExceeded 2, two_manager_store\<lparr>users := initial_users(''m2'' \<mapsto> full_manager)\<rparr>)"
proof -
  let ?r = "add_app initial_store ''manager_user'' upload_form 100000 100001"
  let ?st2 = "two_manager_store\<lparr>users := initial_users(''m2'' \<mapsto> full_manager)\<rparr>"
  let ?r2 = "add_app ?st2 ''m2'' upload_form 100000 100001"
  have g1: "add_app_route initial_store (Some (''manager_user'', ''app_manager_123''))
           upload_form 100000 100001 = Run (fst ?r, snd ?r)"
    by (simp add: add_app_route_def has_role_def initial_store_def initial_users_def
        manager_account_def)
  have g2: "add_app_route ?st2 (Some (''m2'', ''pw2'')) upload_form 100000 100001 =
      Run (fst ?r2, snd ?r2)"
    by (simp add: add_app_route_def has_role_def full_manager_def second_manager_def)
  have u1: "users initial_store ''manager_user'' = Some manager_account"
    by (simp add: initial_store_def initial_users_def)
  have u2: "users ?st2 ''m2'' = Some full_manager" by simp
  from add_app_quota_check [OF g1 u1 upload_form_truthy]
    add_app_quota_check [OF g2 u2 upload_form_truthy]
  show ?thesis
    by (simp add: manager_account_def full_manager_def second_manager_def prod_eq_iff)
qed

text \<open>
  C5 as stated fails when an earlier check refuses the request: the SN of the form is
  registered to another manager, but the account is at its limit and the answer is the
  quota error of line 801, not the SN error.
\<close>

theorem add_app_quota_before_sn_counterexample:
  "''114514'' \<in> set (requested_sns sn_form) \<and>
   sn_config (two_manager_store\<lparr>users := initial_users(''m2'' \<mapsto> full_manager)\<rparr>) ''114514'' =
     Some ''manager_user'' \<and>
   ''manager_user'' \<noteq> ''m2'' \<and>
   fst (add_app (two_manager_store\<lparr>users := initial_users(''m2'' \<mapsto> full_manager)\<rparr>) ''m2''
          sn_form 100000 100001) = QuotaExceeded 2"
  by (simp add: requested_sns_sn_form two_manager_store_fields add_app_def Let_def
      full_manager_def second_manager_def truthy_def sn_form_fields upload_form_fields
      user_role_def current_owns_def max_limit_def)

text \<open>
  C5, as the code has it.  For a request with the three pieces of file information whose
  account is not over its quota, the answer is the SN error exactly when some SN of the
  request is registered to a non-empty owner other than the logged-in user; the error
  names such an SN of the request and its registered owner; an SN without registry entry
  never blocks; and whatever the answer, the registry is left as it was.
\<close>

theorem add_app_sn_conflict:
  assumes "truthy (downloadUrl_hidden data)" "truthy (size_hidden data)" "truthy (md5_hidden data)"
    and "\<not> (user_role (users st owner_user) = Some ''manager'' \<and>
            max_limit (users st owner_user) \<le> current_owns (users st owner_user))"
  shows "((\<exists>sn sn_owner. fst (add_app st owner_user data rand1 rand2) = SnConflict sn sn_owner) \<longleftrightarrow>
            (\<exists>sn \<in> set (requested_sns data). \<exists>sn_owner.
               sn_config st sn = Some sn_owner \<and> sn_owner \<noteq> [] \<and> sn_owner \<noteq> owner_user)) \<and>
         (\<forall>sn sn_owner. fst (add_app st owner_user data rand1 rand2) = SnConflict sn sn_owner \<longrightarrow>
            sn \<in> set (requested_sns data) \<and> sn_config st sn = Some sn_owner \<and>
            sn_owner \<noteq> owner_user) \<and>
         sn_config (snd (add_app st owner_user data rand1 rand2)) = sn_config st"
proof -
  have c: "fst (add_app st owner_user data rand1 rand2) = SnConflict sn sn_owner \<longleftrightarrow>
     sn_conflict (sn_config st) owner_user (requested_sns data) = Some (sn, sn_owner)"
    for sn sn_owner
    using assms by (rule add_app_conflict)
  have "(\<exists>sn sn_owner. sn_conflict (sn_config st) owner_user (requested_sns data) = Some (sn, sn_owner)) \<longleftrightarrow>
        (\<exists>sn \<in> set (requested_sns data). \<exists>sn_owner.
               sn_config st sn = Some sn_owner \<and> sn_owner \<noteq> [] \<and> sn_owner \<noteq> owner_user)"
    using sn_conflict_None [of "sn_config st" owner_user "requested_sns data"]
    by (cases "sn_conflict (sn_config st) owner_user (requested_sns data)") auto
  with c sn_conflict_Some [of "sn_config st" owner_user "requested_sns data"]
    add_app_sn_config [of st owner_user data rand1 rand2]
  show ?thesis by simp
qed

theorem add_app_sn_conflict_witness:
  "fst (add_app two_manager_store ''m2'' sn_form 100000 100001) =
     SnConflict ''114514'' ''manager_user'' \<and>
   sn_config (snd (add_app two_manager_store ''m2'' sn_form 100000 100001)) =
     sn_config two_manager_store \<and>
   fst (add_app two_manager_store ''manager_user'' sn_form 100000 100001) =
     Created ''Demo'' 100000 \<and>
   sn_config (snd (add_app two_manager_store ''manager_user'' sn_form 100000 100001)) =
     [''114514'' \<mapsto> ''manager_user'']"
proof -
  have t: "truthy (downloadUrl_hidden sn_form)" "truthy (size_hidden sn_form)"
    "truthy (md5_hidden sn_form)"
    by (simp_all add: sn_form_fields upload_form_truthy)
  have q2: "\<not> (user_role (users two_manager_store ''m2'') = Some ''manager'' \<and>
      max_limit (users two_manager_store ''m2'') \<le> current_owns (users two_manager_store ''m2''))"
    by (simp add: two_manager_store_fields second_manager_def max_limit_def current_owns_def)
  have q1: "\<not> (user_role (users two_manager_store ''manager_user'') = Some ''manager'' \<and>
      max_limit (users two_manager_store ''manager_user'')
        \<le> current_owns (users two_manager_store ''manager_user''))"
    by (simp add: two_manager_store_fields manager_account_def max_limit_def current_owns_def)
  have c1: "fst (add_app two_manager_store ''manager_user'' sn_form 100000 100001) =
     Created ''Demo'' 100000"
    by (simp add: add_app_def Let_def insert_app_def choose_id_def requested_sns_sn_form
        two_manager_store_fields manager_account_def initial_app_def truthy_def
        user_role_def current_owns_def max_limit_def sn_form_fields upload_form_fields
        strip_def)
  have c2: "\<exists>sn sn_owner. fst (add_app two_manager_store ''m2'' sn_form 100000 100001) =
     SnConflict sn sn_owner"
    using add_app_sn_conflict [OF t q2, of 100000 100001]
    by (simp add: requested_sns_sn_form two_manager_store_fields)
  from c2 add_app_sn_conflict [OF t q2, of 100000 100001]
    add_app_sn_conflict [OF t q1, of 100000 100001] c1
  show ?thesis
    by (auto simp: requested_sns_sn_form two_manager_store_fields)
qed

section \<open>Deleting an entry\<close>

text \<open>
  \<open>delete_app\<close> by cases of the form's id: missing or empty, matching no entry, or
  matching a first entry \<open>e\<close>.  In the last case at least one entry is removed, so line
  886 always has an entry to read the owner from.
\<close>

lemma find_app_Some_filter:
  "find_app all_apps k = Some e \<Longrightarrow>
   length (filter (\<lambda>a. str_of_id (ident a) \<noteq> k) all_apps) < length all_apps"
  unfolding find_app_def
proof (induction all_apps)
  case Nil then show ?case by simp
next
  case (Cons a as)
  have le: "length (filter (\<lambda>a. str_of_id (ident a) \<noteq> k) as) \<le> length as" by simp
  from Cons le show ?case by (auto split: if_splits simp: less_Suc_eq_le)
qed

lemma find_app_None_filter:
  "find_app all_apps k = None \<Longrightarrow> filter (\<lambda>a. str_of_id (ident a) \<noteq> k) all_apps = all_apps"
  unfolding find_app_def by (induction all_apps) (auto split: if_splits)

lemma delete_app_no_id:
  "id_field = None \<or> id_field = Some [] \<Longrightarrow> delete_app st owner_user id_field = (NoAppId, st)"
  by (auto simp: delete_app_def)

lemma delete_app_missing:
  "k \<noteq> [] \<Longrightarrow> find_app (apps st) k = None \<Longrightarrow>
   delete_app st owner_user (Some k) = (NotFound k, st)"
  using find_app_None_filter [of "apps st" k]
  by (simp add: delete_app_def Let_def delete_denied_def)

lemma delete_app_found:
  "find_app (apps st) k = Some e \<Longrightarrow>
   delete_app st owner_user (Some k) =
     (if delete_denied st owner_user (Some e) then (Forbidden, st)
      else (Deleted k,
            decrement_owner
              (st\<lparr>apps := filter (\<lambda>a. str_of_id (ident a) \<noteq> k) (apps st)\<rparr>) (owner e)))"
proof -
  assume f: "find_app (apps st) k = Some e"
  then have "str_of_id (ident e) = k"
    by (auto simp: find_app_def find_Some_iff)
  then have "k \<noteq> []" using str_of_id_nonempty [of "ident e"] by simp
  with f find_app_Some_filter [OF f] show ?thesis
    by (simp add: delete_app_def Let_def)
qed

lemma delete_app_cases:
  "delete_app st owner_user id_field = (dres, st') \<Longrightarrow>
   st' = st \<and> (\<forall>k. dres \<noteq> Deleted k) \<and> dres \<noteq> DeleteUnhandled \<or>
   (\<exists>k e. id_field = Some k \<and> dres = Deleted k \<and> find_app (apps st) k = Some e \<and>
      st' = decrement_owner
              (st\<lparr>apps := filter (\<lambda>a. str_of_id (ident a) \<noteq> k) (apps st)\<rparr>) (owner e))"
proof -
  assume run: "delete_app st owner_user id_field = (dres, st')"
  show ?thesis
  proof (cases "id_field = None \<or> id_field = Some []")
    case True
    from delete_app_no_id [OF True, of st owner_user] run show ?thesis by auto
  next
    case False
    then obtain k where k: "id_field = Some k" "k \<noteq> []" by (cases id_field) auto
    show ?thesis
    proof (cases "find_app (apps st) k")
      case None
      from delete_app_missing [OF k(2) None, of owner_user] run k show ?thesis by auto
    next
      case (Some e)
      from delete_app_found [OF Some, of owner_user] run k Some show ?thesis
        by (auto split: if_splits)
    qed
  qed
qed

lemma find_initial_app: "find_app (apps initial_store) ''602750'' = Some initial_app"
  by (simp add: find_app_def initial_store_def initial_app_def str_of_id_602750)

lemma find_two_manager: "find_app (apps two_manager_store) ''602750'' = Some initial_app"
  by (simp add: find_app_def two_manager_store_def initial_store_def initial_app_def str_of_id_602750)

lemma delete_initial:
  "delete_app initial_store ''manager_user'' (Some ''602750'') =
     (Deleted ''602750'',
      decrement_owner
        (initial_store\<lparr>apps := filter (\<lambda>a. str_of_id (ident a) \<noteq> ''602750'') (apps initial_store)\<rparr>)
        (Some ''manager_user''))"
  using delete_app_found [OF find_initial_app, of "''manager_user''"]
  by (simp add: delete_denied_def initial_app_fields)

section \<open>The counter \<open>owns_apps\<close>\<close>

lemma decrement_owner_apps: "apps (decrement_owner st app_owner) = apps st"
  by (simp add: decrement_owner_def split: option.splits)

lemma decrement_owner_hit:
  "users st name = Some v \<Longrightarrow> role v = Some ''manager'' \<Longrightarrow>
   users (decrement_owner st (Some name)) name =
     Some (v\<lparr>owns_apps := Some (max 0 ((case owns_apps v of None \<Rightarrow> 1 | Some n \<Rightarrow> n) - 1))\<rparr>)"
  by (simp add: decrement_owner_def)

section \<open>Deleting when two entries share an id\<close>

lemma find_duplicate: "find_app (apps duplicate_store) ''602750'' = Some initial_app"
  by (simp add: find_app_def duplicate_store_fields initial_app_fields str_of_id_602750)

lemma delete_duplicate:
  "delete_app duplicate_store ''manager_user'' (Some ''602750'') =
     (Deleted ''602750'',
      decrement_owner (duplicate_store\<lparr>apps := []\<rparr>) (Some ''manager_user''))"
  using delete_app_found [OF find_duplicate, of "''manager_user''"]
  by (simp add: delete_denied_def initial_app_fields duplicate_store_fields
      duplicate_entry_fields str_of_id_602750)

text \<open>
  C6.  The claim does not hold in \<open>duplicate_store\<close>, the store that \<open>add_app\<close> itself
  makes when both draws are 602750: its two entries share that id, the first owned by
  \<open>manager_user\<close>, the second by \<open>m2\<close>.  Line 876 checks the first match only and line 879
  removes every match: \<open>manager_user\<close>, a manager who does not own the second entry,
  deletes it, and \<open>m2\<close>, who owns it, is refused.
\<close>

theorem delete_app_removes_foreign_duplicate:
  "fst (add_app two_manager_store ''m2'' upload_form 602750 602750) = Created ''Demo'' 602750 \<and>
   duplicate_store = snd (add_app two_manager_store ''m2'' upload_form 602750 602750) \<and>
   map ident (apps duplicate_store) = [Some 602750, Some 602750] \<and>
   map owner (apps duplicate_store) = [Some ''manager_user'', Some ''m2''] \<and>
   user_role (users duplicate_store ''manager_user'') = Some ''manager'' \<and>
   fst (delete_app duplicate_store ''manager_user'' (Some ''602750'')) = Deleted ''602750'' \<and>
   apps (snd (delete_app duplicate_store ''manager_user'' (Some ''602750''))) = [] \<and>
   delete_app duplicate_store ''m2'' (Some ''602750'') = (Forbidden, duplicate_store)"
proof -
  have c: "fst (add_app two_manager_store ''m2'' upload_form 602750 602750) =
      Created ''Demo'' 602750"
    by (simp add: create_duplicate_draw)
  have r: "duplicate_store = snd (add_app two_manager_store ''m2'' upload_form 602750 602750)"
    by (simp only: duplicate_store_def)
  have f: "delete_app duplicate_store ''m2'' (Some ''602750'') = (Forbidden, duplicate_store)"
    using delete_app_found [OF find_duplicate, of "''m2''"]
    by (simp add: delete_denied_def initial_app_fields duplicate_store_fields user_role_def
        second_manager_def)
  have d: "map ident (apps duplicate_store) = [Some 602750, Some 602750] \<and>
   map owner (apps duplicate_store) = [Some ''manager_user'', Some ''m2''] \<and>
   user_role (users duplicate_store ''manager_user'') = Some ''manager'' \<and>
   fst (delete_app duplicate_store ''manager_user'' (Some ''602750'')) = Deleted ''602750'' \<and>
   apps (snd (delete_app duplicate_store ''manager_user'' (Some ''602750''))) = []"
    by (simp add: duplicate_store_fields duplicate_entry_fields initial_app_fields
        delete_duplicate decrement_owner_apps user_role_def manager_account_def)
  from c r f d show ?thesis by (intro conjI) (rule c, rule r, simp_all)
qed

text \<open>
  C4.  The claim does not hold in the same store: the delete removes both entries, lines
  886-890 lower the counter of the first match's owner only, and the counter of \<open>m2\<close>,
  the former owner of the second entry, stays 2.
\<close>

theorem delete_app_skips_second_owner:
  "map owner (apps duplicate_store) = [Some ''manager_user'', Some ''m2''] \<and>
   role second_manager = Some ''manager'' \<and>
   users duplicate_store ''m2'' = Some (second_manager\<lparr>owns_apps := Some 2\<rparr>) \<and>
   fst (delete_app duplicate_store ''manager_user'' (Some ''602750'')) = Deleted ''602750'' \<and>
   apps (snd (delete_app duplicate_store ''manager_user'' (Some ''602750''))) = [] \<and>
   users (snd (delete_app duplicate_store ''manager_user'' (Some ''602750''))) ''m2'' =
     Some (second_manager\<lparr>owns_apps := Some 2\<rparr>)"
  by (simp add: duplicate_store_fields duplicate_entry_fields initial_app_fields
      delete_duplicate decrement_owner_apps decrement_owner_def second_manager_def
      manager_account_def)

section \<open>Failed requests\<close>

text \<open>
  C7.  Whenever \<open>add_app\<close> or \<open>delete_app\<close> answers with anything but success (any of
  the error redirects, or an uncaught exception of \<open>add_app\<close>), the catalog, the accounts
  and the registry are exactly as before; and \<open>delete_app\<close> never raises at line 886.
\<close>

theorem failed_mutation_leaves_stores:
  "(add_app st owner_user data rand1 rand2 = (res, st') \<and> (\<forall>nm i. res \<noteq> Created nm i) \<longrightarrow>
      st' = st) \<and>
   (delete_app st owner_user id_field = (dres, st'') \<and> (\<forall>k. dres \<noteq> Deleted k) \<longrightarrow>
      st'' = st) \<and>
   fst (delete_app st owner_user id_field) \<noteq> DeleteUnhandled"
proof (intro conjI impI)
  assume "add_app st owner_user data rand1 rand2 = (res, st') \<and> (\<forall>nm i. res \<noteq> Created nm i)"
  with add_app_failed_aux [of st owner_user data rand1 rand2] show "st' = st" by auto
next
  assume "delete_app st owner_user id_field = (dres, st'') \<and> (\<forall>k. dres \<noteq> Deleted k)"
  with delete_app_cases [of st owner_user id_field dres st''] show "st'' = st" by auto
next
  obtain dres st1 where run: "delete_app st owner_user id_field = (dres, st1)"
    by (cases "delete_app st owner_user id_field")
  from delete_app_cases [OF run] run show "fst (delete_app st owner_user id_field) \<noteq> DeleteUnhandled"
    by auto
qed

theorem failed_mutation_leaves_stores_witness:
  "add_app initial_store ''manager_user'' dup_form 100000 100001 =
     (DuplicateId 602750, initial_store) \<and>
   delete_app two_manager_store ''m2'' (Some ''602750'') = (Forbidden, two_manager_store) \<and>
   delete_app initial_store ''manager_user'' None = (NoAppId, initial_store)"
proof -
  let ?c = "add_app initial_store ''manager_user'' dup_form 100000 100001"
  let ?d = "delete_app two_manager_store ''m2'' (Some ''602750'')"
  let ?n = "delete_app initial_store ''manager_user'' None"
  have c: "?c = (DuplicateId 602750, snd ?c)"
    using create_duplicate by (simp add: prod_eq_iff)
  have d: "?d = (Forbidden, snd ?d)"
    using delete_app_found [OF find_two_manager, of "''m2''"]
    by (simp add: delete_denied_def initial_app_fields two_manager_store_fields
        user_role_def second_manager_def)
  have n: "?n = (NoAppId, snd ?n)" by (simp add: delete_app_def)
  from failed_mutation_leaves_stores [where st = initial_store and owner_user = "''manager_user''"
      and data = dup_form and ?rand1.0 = 100000 and ?rand2.0 = 100001
      and res = "DuplicateId 602750" and st' = "snd ?c" and id_field = None
      and dres = NoAppId and st'' = "snd ?n"]
    failed_mutation_leaves_stores [where st = two_manager_store and owner_user = "''m2''"
      and id_field = "Some ''602750''" and dres = Forbidden and st'' = "snd ?d"
      and data = dup_form and ?rand1.0 = 100000 and ?rand2.0 = 100001
      and res = "fst (add_app two_manager_store ''m2'' dup_form 100000 100001)"
      and st' = "two_manager_store"]
    c d n
  show ?thesis by (simp add: prod_eq_iff)
qed

section \<open>The client routes\<close>















end
